theory Spec2Isabelle
  imports Main "HOL-Library.Word"
begin

section \<open>JavaScript strings and values\<close>

text \<open>
  A JavaScript string is a sequence of UTF-16 code units: \<open>length\<close>, \<open>trim\<close>,
  \<open>replace\<close> and \<open>substring\<close> all count and move in code units. A literal of the
  source is written \<open>lit ''...''\<close>; characters outside ASCII are given by their code units.
\<close>

type_synonym jschar = "16 word"
type_synonym jsstring = "jschar list"

definition lit :: "string \<Rightarrow> jsstring" where
  "lit s = map of_char s"

definition chr_LF :: jschar where "chr_LF = 0x0A"
definition chr_quot :: jschar where "chr_quot = 0x22"
definition chr_amp :: jschar where "chr_amp = 0x26"
definition chr_apos :: jschar where "chr_apos = 0x27"
definition chr_slash :: jschar where "chr_slash = 0x2F"
definition chr_lt :: jschar where "chr_lt = 0x3C"
definition chr_gt :: jschar where "chr_gt = 0x3E"
definition chr_bslash :: jschar where "chr_bslash = 0x5C"
definition chr_btick :: jschar where "chr_btick = 0x60"

definition line :: "string \<Rightarrow> jsstring" where
  "line s = lit s @ [chr_LF]"

text \<open>
  The values a form field or a helper argument can hold here: \<open>undefined\<close>, \<open>null\<close>,
  a boolean (\<open>normalizeEmail\<close> answers \<open>false\<close> for an address it cannot
  normalise) or a string.
\<close>

datatype jsval = JUndefined | JNull | JBool bool | JStr jsstring

text \<open>\<open>!v\<close>: the values JavaScript treats as false.\<close>

fun falsy :: "jsval \<Rightarrow> bool" where
  "falsy JUndefined = True"
| "falsy JNull = True"
| "falsy (JBool b) = (\<not> b)"
| "falsy (JStr s) = (s = [])"

text \<open>\<open>String(v)\<close>, also what a template literal does with an interpolated value.\<close>

fun js_String :: "jsval \<Rightarrow> jsstring" where
  "js_String JUndefined = lit ''undefined''"
| "js_String JNull = lit ''null''"
| "js_String (JBool b) = (if b then lit ''true'' else lit ''false'')"
| "js_String (JStr s) = s"

text \<open>
  The code units that \<open>String.prototype.trim\<close> and the regular expression class
  for white space strip: ECMAScript's WhiteSpace and LineTerminator.
\<close>

definition isWhiteSpace :: "jschar \<Rightarrow> bool" where
  "isWhiteSpace c =
     (c \<in> set [0x09, 0x0A, 0x0B, 0x0C, 0x0D, 0x20, 0xA0, 0x1680, 0x2028, 0x2029,
                0x202F, 0x205F, 0x3000, 0xFEFF]
      \<or> (0x2000 \<le> c \<and> c \<le> 0x200A))"

definition ltrim :: "jsstring \<Rightarrow> jsstring" where
  "ltrim s = dropWhile isWhiteSpace s"

definition rtrim :: "jsstring \<Rightarrow> jsstring" where
  "rtrim s = rev (dropWhile isWhiteSpace (rev s))"

definition trim :: "jsstring \<Rightarrow> jsstring" where
  "trim s = rtrim (ltrim s)"

text \<open>\<open>s.replace(/c/g, r)\<close> for a single character \<open>c\<close> and a replacement without \<open>$\<close>.\<close>

definition replace_g :: "jschar \<Rightarrow> jsstring \<Rightarrow> jsstring \<Rightarrow> jsstring" where
  "replace_g c r s = concat (map (\<lambda>x. if x = c then r else [x]) s)"

text \<open>
  \<open>s.substring(a, b)\<close> for non-negative integers: both ends are clamped to the length
  and swapped when out of order.
\<close>

definition substring :: "jsstring \<Rightarrow> nat \<Rightarrow> nat \<Rightarrow> jsstring" where
  "substring s a b =
     (let a' = min a (length s); b' = min b (length s)
      in take (max a' b' - min a' b') (drop (min a' b') s))"

section \<open>The sanitize helper\<close>

text \<open>\<open>sanitize\<close> of \<open>src/server.js\<close> (line 79).\<close>

definition sanitize :: "jsval \<Rightarrow> jsstring" where
  "sanitize str =
     (if falsy str then []
      else substring
             (trim (replace_g chr_gt (lit ''&gt;'')
                      (replace_g chr_lt (lit ''&lt;'') (js_String str))))
             0 500)"

text \<open>\<open>sanitize\<close> of the first program of \<open>src/unnamed/part_000\<close> (line 84).\<close>

definition sanitize_v1 :: "jsval \<Rightarrow> jsstring" where
  "sanitize_v1 str =
     (if falsy str then []
      else substring
             (trim (replace_g chr_apos (lit ''&#x27;'')
                      (replace_g chr_quot (lit ''&quot;'')
                         (replace_g chr_gt (lit ''&gt;'')
                            (replace_g chr_lt (lit ''&lt;'') (js_String str))))))
             0 500)"


section \<open>Collaborators: validator library, clock, configuration and mail transport\<close>

text \<open>
  An outbound message as the handlers hand it to the transport (the argument of
  \<open>sendMail\<close>), and a rejected delivery, of which the handlers read only
  \<open>err.message\<close>.
\<close>

record mail =
  m_from :: jsstring
  m_to :: jsval
  m_replyTo :: jsval
  m_subject :: jsstring
  m_html :: jsstring

datatype send_error = SendError (err_message: jsstring)

text \<open>
  What the routes call but this repository does not define is a parameter of the model:
  validator.js's \<open>isEmail\<close>, \<open>normalizeEmail\<close> (\<open>None\<close> is its answer
  \<open>false\<close>), \<open>isISO8601\<close> and \<open>toDate\<close>; \<open>strlen\<close>, the number of
  characters that \<open>isLength\<close> counts in a string (validator.js's own count is
  \<open>isLength_count\<close> below); the two date renderings \<open>new Date(d).toLocaleDateString()\<close> and
  \<open>new Date(d).toLocaleDateString('en-US', {weekday:'long', ...})\<close>;
  \<open>new Date().toISOString()\<close>; and nodemailer's \<open>transporter.sendMail\<close>, whose
  promise resolves (\<open>Inr\<close>) or rejects (\<open>Inl\<close>).
\<close>

record 'd platform =
  isEmail :: "jsstring \<Rightarrow> bool"
  normalizeEmail :: "jsstring \<Rightarrow> jsstring option"
  isISO8601 :: "jsstring \<Rightarrow> bool"
  toDate :: "jsstring \<Rightarrow> 'd"
  strlen :: "jsstring \<Rightarrow> nat"
  toLocaleDateString :: "'d \<Rightarrow> jsstring"
  toLocaleDateString_enUS :: "'d \<Rightarrow> jsstring"
  nowISO :: jsstring
  sendMail :: "mail \<Rightarrow> send_error + unit"

text \<open>\<open>process.env\<close>: a variable that is not set reads as \<open>undefined\<close>.\<close>

record env =
  SMTP_USER :: "jsstring option"
  BUSINESS_EMAIL :: "jsstring option"

definition env_value :: "jsstring option \<Rightarrow> jsval" where
  "env_value v = (case v of None \<Rightarrow> JUndefined | Some s \<Rightarrow> JStr s)"

section \<open>The validation chains\<close>

text \<open>
  The string functions of validator.js that the chains apply. \<open>trim\<close> without a
  character set strips white space at both ends, which is \<^const>\<open>trim\<close> above;
  \<open>isEmpty\<close> asks for length zero; \<open>escape\<close> replaces, in this order,
  the ampersand, the double quote, the apostrophe, \<open><\<close>, \<open>>\<close>, the slash,
  the backslash and the backtick by HTML entities.
\<close>

definition isEmpty :: "jsstring \<Rightarrow> bool" where
  "isEmpty s = (length s = 0)"

definition escape :: "jsstring \<Rightarrow> jsstring" where
  "escape s =
     replace_g chr_btick (lit ''&#96;'')
       (replace_g chr_bslash (lit ''&#x5C;'')
          (replace_g chr_slash (lit ''&#x2F;'')
             (replace_g chr_gt (lit ''&gt;'')
                (replace_g chr_lt (lit ''&lt;'')
                   (replace_g chr_apos (lit ''&#x27;'')
                      (replace_g chr_quot (lit ''&quot;'')
                         (replace_g chr_amp (lit ''&amp;'') s)))))))"

definition isLength :: "'d platform \<Rightarrow> jsstring \<Rightarrow> nat \<Rightarrow> nat option \<Rightarrow> bool" where
  "isLength P s lo hi =
     (lo \<le> strlen P s \<and> (case hi of None \<Rightarrow> True | Some m \<Rightarrow> strlen P s \<le> m))"

text \<open>
  The count that validator.js's \<open>isLength\<close> compares with its bounds: the length in
  code units, less the number of variation selectors (U+FE0F, U+FE0E) and less the
  number of surrogate pairs (a code unit in D800..DBFF followed by one in DC00..DFFF,
  matched from left to right without overlap).
\<close>

definition isVariationSelector :: "jschar \<Rightarrow> bool" where
  "isVariationSelector c = (c = 0xFE0F \<or> c = 0xFE0E)"

definition isHighSurrogate :: "jschar \<Rightarrow> bool" where
  "isHighSurrogate c = (0xD800 \<le> c \<and> c \<le> 0xDBFF)"

definition isLowSurrogate :: "jschar \<Rightarrow> bool" where
  "isLowSurrogate c = (0xDC00 \<le> c \<and> c \<le> 0xDFFF)"

fun surrogatePairs :: "jsstring \<Rightarrow> nat" where
  "surrogatePairs (a # b # cs) =
     (if isHighSurrogate a \<and> isLowSurrogate b then Suc (surrogatePairs cs)
      else surrogatePairs (b # cs))"
| "surrogatePairs cs = 0"

definition isLength_count :: "jsstring \<Rightarrow> nat" where
  "isLength_count s =
     length s - length (filter isVariationSelector s) - surrogatePairs s"

text \<open>
  The request body: form fields by name. A field that is absent reads as the empty
  string in every validator and sanitizer (express-validator's \<open>toString\<close>).
\<close>

type_synonym reqbody = "string \<rightharpoonup> jsstring"

text \<open>
  A chain \<open>body('f').a().b()...\<close> runs its steps in the order written. A sanitizer
  replaces the field's value, a validator records an error when the current value fails,
  and the chain goes on after an error (no step is \<open>bail\<close>).
\<close>

record chain_ctx =
  cvalue :: jsstring
  cerrors :: nat

definition field :: "reqbody \<Rightarrow> string \<Rightarrow> jsstring" where
  "field req f = (case req f of None \<Rightarrow> [] | Some s \<Rightarrow> s)"

definition body :: "reqbody \<Rightarrow> string \<Rightarrow> chain_ctx" where
  "body req f = \<lparr>cvalue = field req f, cerrors = 0\<rparr>"

definition sanitizer :: "(jsstring \<Rightarrow> jsstring) \<Rightarrow> chain_ctx \<Rightarrow> chain_ctx" where
  "sanitizer f c = c\<lparr>cvalue := f (cvalue c)\<rparr>"

definition validator :: "(jsstring \<Rightarrow> bool) \<Rightarrow> chain_ctx \<Rightarrow> chain_ctx" where
  "validator p c = (if p (cvalue c) then c else c\<lparr>cerrors := Suc (cerrors c)\<rparr>)"

definition chain :: "chain_ctx \<Rightarrow> (chain_ctx \<Rightarrow> chain_ctx) list \<Rightarrow> chain_ctx" where
  "chain c steps = foldl (\<lambda>c step. step c) c steps"

definition v_trim :: "chain_ctx \<Rightarrow> chain_ctx" where
  "v_trim = sanitizer trim"

definition v_escape :: "chain_ctx \<Rightarrow> chain_ctx" where
  "v_escape = sanitizer escape"

definition v_notEmpty :: "chain_ctx \<Rightarrow> chain_ctx" where
  "v_notEmpty = validator (\<lambda>s. \<not> isEmpty s)"

definition v_isLength :: "'d platform \<Rightarrow> nat \<Rightarrow> nat option \<Rightarrow> chain_ctx \<Rightarrow> chain_ctx" where
  "v_isLength P lo hi = validator (\<lambda>s. isLength P s lo hi)"

definition v_isEmail :: "'d platform \<Rightarrow> chain_ctx \<Rightarrow> chain_ctx" where
  "v_isEmail P = validator (isEmail P)"

definition v_isISO8601 :: "'d platform \<Rightarrow> chain_ctx \<Rightarrow> chain_ctx" where
  "v_isISO8601 P = validator (isISO8601 P)"

text \<open>
  \<open>normalizeEmail()\<close> and \<open>toDate()\<close> stand last in their chains and leave a value
  that is no longer a string, so they are applied to the chain's final value:
  \<open>normalizeEmail\<close> stores the normalised address or \<open>false\<close>.
\<close>

definition v_normalizeEmail :: "'d platform \<Rightarrow> jsstring \<Rightarrow> jsval" where
  "v_normalizeEmail P s =
     (case normalizeEmail P s of None \<Rightarrow> JBool False | Some a \<Rightarrow> JStr a)"

definition v_toDate :: "'d platform \<Rightarrow> jsstring \<Rightarrow> 'd" where
  "v_toDate P s = toDate P s"

text \<open>\<open>validationResult(req).isEmpty()\<close>: no chain recorded an error.\<close>

definition validationResult_isEmpty :: "chain_ctx list \<Rightarrow> bool" where
  "validationResult_isEmpty cs = (sum_list (map cerrors cs) = 0)"

section \<open>Responses and what a request leaves behind\<close>

text \<open>
  A JSON response \<open>{success, message}\<close> with its HTTP status (\<open>res.json\<close> alone
  answers 200), and the observable result of handling one request: the response, the
  messages handed to the transport in order, and the lines written to the console.
\<close>

record response =
  r_status :: nat
  r_success :: bool
  r_message :: "jsstring option"

record outcome =
  o_response :: response
  o_sent :: "mail list"
  o_console :: "jsstring list"

section \<open>The e-mail templates\<close>

text \<open>The \<open>html\<close> template of the booking route, \<open>src/server.js\<close> lines 121 to 136.\<close>

definition booking_html :: "jsstring \<Rightarrow> jsstring \<Rightarrow> jsstring \<Rightarrow> jsstring \<Rightarrow> jsstring \<Rightarrow> jsstring" where
  \<open>booking_html firstName lastName email date time =
     [chr_LF] @
     line ''        <div style="font-family:Arial,sans-serif;padding:30px;background:#f9f9f9">'' @
     line ''          <div style="background:#080c0a;padding:20px;text-align:center;border-radius:8px 8px 0 0">'' @
     line ''            <h2 style="color:#00e87a;margin:0">LWA Leads Group</h2>'' @
     line ''            <p style="color:#7a9484;margin:4px 0 0;font-size:13px">'' @
     line ''              New Booking Request'' @
     line ''            </p>'' @
     line ''          </div>'' @
     line ''          <div style="background:#fff;padding:24px;border:1px solid #e0e0e0;border-top:none;border-radius:0 0 8px 8px">'' @
     lit ''            <p><strong>Name:</strong> '' @
     firstName @
     lit '' '' @
     lastName @
     line ''</p>'' @
     lit ''            <p><strong>Email:</strong> '' @
     email @
     line ''</p>'' @
     lit ''            <p><strong>Date:</strong> '' @
     date @
     line ''</p>'' @
     lit ''            <p><strong>Time:</strong> '' @
     time @
     line ''</p>'' @
     line ''          </div>'' @
     line ''        </div>'' @
     lit ''        ''\<close>

text \<open>The \<open>html\<close> template of the contact route, \<open>src/server.js\<close> lines 176 to 190.\<close>

definition contact_html :: "jsstring \<Rightarrow> jsstring \<Rightarrow> jsstring \<Rightarrow> jsstring" where
  \<open>contact_html name email message =
     [chr_LF] @
     line ''        <div style="font-family:Arial,sans-serif;padding:30px;background:#f9f9f9">'' @
     line ''          <div style="background:#080c0a;padding:20px;text-align:center;border-radius:8px 8px 0 0">'' @
     line ''            <h2 style="color:#00e87a;margin:0">LWA Leads Group</h2>'' @
     line ''          </div>'' @
     line ''          <div style="background:#fff;padding:24px;border:1px solid #e0e0e0;border-top:none;border-radius:0 0 8px 8px">'' @
     lit ''            <p><strong>Name:</strong> '' @
     name @
     line ''</p>'' @
     lit ''            <p><strong>Email:</strong> '' @
     email @
     line ''</p>'' @
     line ''            <p><strong>Message:</strong></p>'' @
     line ''            <div style="background:#f8f8f8;padding:16px;border-radius:4px">'' @
     lit ''              '' @
     message @
     [chr_LF] @
     line ''            </div>'' @
     line ''          </div>'' @
     line ''        </div>'' @
     lit ''        ''\<close>

text \<open>The booking template of \<open>src/unnamed/part_000\<close>, lines 129 to 160.\<close>

definition booking_html_v1 :: "jsstring \<Rightarrow> jsstring \<Rightarrow> jsstring \<Rightarrow> jsstring \<Rightarrow> jsstring \<Rightarrow> jsstring" where
  \<open>booking_html_v1 safeFirst safeLast safeEmail safeDate safeTime =
     [chr_LF] @
     line ''        <div style="font-family:Arial,sans-serif;max-width:600px;margin:auto;background:#f9f9f9;padding:30px;border-radius:8px;">'' @
     line ''          <div style="background:#080c0a;padding:20px;border-radius:6px 6px 0 0;text-align:center;">'' @
     line ''            <h2 style="color:#00e87a;margin:0;font-size:22px;">LWA Leads Group</h2>'' @
     line ''            <p style="color:#7a9484;margin:6px 0 0;font-size:13px;">New Booking Request</p>'' @
     line ''          </div>'' @
     line ''          <div style="background:#fff;padding:24px;border-radius:0 0 6px 6px;border:1px solid #e0e0e0;border-top:none;">'' @
     line ''            <table style="width:100%;border-collapse:collapse;">'' @
     line ''              <tr>'' @
     line ''                <td style="padding:10px 0;border-bottom:1px solid #f0f0f0;color:#666;width:35%;font-size:14px;"><strong>Full Name</strong></td>'' @
     lit ''                <td style="padding:10px 0;border-bottom:1px solid #f0f0f0;color:#222;font-size:14px;">'' @
     safeFirst @
     lit '' '' @
     safeLast @
     line ''</td>'' @
     line ''              </tr>'' @
     line ''              <tr>'' @
     line ''                <td style="padding:10px 0;border-bottom:1px solid #f0f0f0;color:#666;font-size:14px;"><strong>Email</strong></td>'' @
     lit ''                <td style="padding:10px 0;border-bottom:1px solid #f0f0f0;color:#222;font-size:14px;">'' @
     safeEmail @
     line ''</td>'' @
     line ''              </tr>'' @
     line ''              <tr>'' @
     line ''                <td style="padding:10px 0;border-bottom:1px solid #f0f0f0;color:#666;font-size:14px;"><strong>Preferred Date</strong></td>'' @
     lit ''                <td style="padding:10px 0;border-bottom:1px solid #f0f0f0;color:#222;font-size:14px;">'' @
     safeDate @
     line ''</td>'' @
     line ''              </tr>'' @
     line ''              <tr>'' @
     line ''                <td style="padding:10px 0;color:#666;font-size:14px;"><strong>Preferred Time</strong></td>'' @
     lit ''                <td style="padding:10px 0;color:#222;font-size:14px;">'' @
     safeTime @
     line ''</td>'' @
     line ''              </tr>'' @
     line ''            </table>'' @
     line ''            <div style="margin-top:20px;padding:12px;background:#f0fdf4;border-left:3px solid #00e87a;border-radius:4px;">'' @
     lit ''              <p style="margin:0;font-size:13px;color:#444;">'' @
     [0xD83D, 0xDCA1] @
     lit '' Hit <strong>Reply</strong> to respond directly to '' @
     safeFirst @
     line ''.</p>'' @
     line ''            </div>'' @
     line ''          </div>'' @
     line ''          <p style="text-align:center;color:#aaa;font-size:11px;margin-top:16px;">Sent from LWA Leads Group website</p>'' @
     line ''        </div>'' @
     lit ''      ''\<close>

text \<open>The contact template of \<open>src/unnamed/part_000\<close>, lines 198 to 225.\<close>

definition contact_html_v1 :: "jsstring \<Rightarrow> jsstring \<Rightarrow> jsstring \<Rightarrow> jsstring" where
  \<open>contact_html_v1 safeName safeEmail safeMessage =
     [chr_LF] @
     line ''        <div style="font-family:Arial,sans-serif;max-width:600px;margin:auto;background:#f9f9f9;padding:30px;border-radius:8px;">'' @
     line ''          <div style="background:#080c0a;padding:20px;border-radius:6px 6px 0 0;text-align:center;">'' @
     line ''            <h2 style="color:#00e87a;margin:0;font-size:22px;">LWA Leads Group</h2>'' @
     line ''            <p style="color:#7a9484;margin:6px 0 0;font-size:13px;">New Contact Message</p>'' @
     line ''          </div>'' @
     line ''          <div style="background:#fff;padding:24px;border-radius:0 0 6px 6px;border:1px solid #e0e0e0;border-top:none;">'' @
     line ''            <table style="width:100%;border-collapse:collapse;">'' @
     line ''              <tr>'' @
     line ''                <td style="padding:10px 0;border-bottom:1px solid #f0f0f0;color:#666;width:25%;font-size:14px;"><strong>Name</strong></td>'' @
     lit ''                <td style="padding:10px 0;border-bottom:1px solid #f0f0f0;color:#222;font-size:14px;">'' @
     safeName @
     line ''</td>'' @
     line ''              </tr>'' @
     line ''              <tr>'' @
     line ''                <td style="padding:10px 0;border-bottom:1px solid #f0f0f0;color:#666;font-size:14px;"><strong>Email</strong></td>'' @
     lit ''                <td style="padding:10px 0;border-bottom:1px solid #f0f0f0;color:#222;font-size:14px;">'' @
     safeEmail @
     line ''</td>'' @
     line ''              </tr>'' @
     line ''            </table>'' @
     line ''            <div style="margin-top:20px;">'' @
     line ''              <p style="color:#666;font-size:14px;margin-bottom:8px;"><strong>Message:</strong></p>'' @
     lit ''              <div style="background:#f8f8f8;padding:16px;border-radius:4px;border:1px solid #eee;color:#333;font-size:14px;line-height:1.7;white-space:pre-wrap;">'' @
     safeMessage @
     line ''</div>'' @
     line ''            </div>'' @
     line ''            <div style="margin-top:20px;padding:12px;background:#f0fdf4;border-left:3px solid #00e87a;border-radius:4px;">'' @
     lit ''              <p style="margin:0;font-size:13px;color:#444;">'' @
     [0xD83D, 0xDCA1] @
     lit '' Hit <strong>Reply</strong> to respond directly to '' @
     safeName @
     line ''.</p>'' @
     line ''            </div>'' @
     line ''          </div>'' @
     line ''          <p style="text-align:center;color:#aaa;font-size:11px;margin-top:16px;">Sent from LWA Leads Group website</p>'' @
     line ''        </div>'' @
     lit ''      ''\<close>

section \<open>The routes of src/server.js\<close>

text \<open>
  The object literal that the booking route passes to \<open>sendMail\<close>, from the fields
  destructured out of \<open>req.body\<close> after validation.
\<close>

definition booking_mail ::
  "'d platform \<Rightarrow> env \<Rightarrow> jsstring \<Rightarrow> jsstring \<Rightarrow> jsval \<Rightarrow> 'd \<Rightarrow> jsstring \<Rightarrow> mail" where
  \<open>booking_mail P E firstName lastName email date time =
     \<lparr>m_from = lit ''"LWA Website" <'' @ js_String (env_value (SMTP_USER E)) @ lit ''>'',
      m_to = env_value (BUSINESS_EMAIL E),
      m_replyTo = email,
      m_subject = [0xD83D, 0xDCC5] @ lit '' New Booking '' @ [0x2014] @ lit '' '' @
                  sanitize (JStr firstName) @ lit '' '' @ sanitize (JStr lastName),
      m_html = booking_html (sanitize (JStr firstName)) (sanitize (JStr lastName))
                 (sanitize email) (toLocaleDateString P date) (sanitize (JStr time))\<rparr>\<close>

text \<open>
  \<open>POST /api/booking\<close> (line 98), for a request that the rate limiter let through:
  the five chains run, then the handler.
\<close>

definition booking :: "'d platform \<Rightarrow> env \<Rightarrow> reqbody \<Rightarrow> outcome" where
  "booking P E req =
     (let firstName = chain (body req ''firstName'') [v_trim, v_notEmpty, v_escape];
          lastName = chain (body req ''lastName'') [v_trim, v_notEmpty, v_escape];
          email = chain (body req ''email'') [v_isEmail P];
          date = chain (body req ''date'') [v_notEmpty, v_isISO8601 P];
          time = chain (body req ''time'') [v_notEmpty, v_trim, v_escape]
      in if \<not> validationResult_isEmpty [firstName, lastName, email, date, time]
         then \<lparr>o_response = \<lparr>r_status = 400, r_success = False,
                               r_message = Some (lit ''Invalid data.'')\<rparr>,
               o_sent = [], o_console = []\<rparr>
         else
           (let m = booking_mail P E (cvalue firstName) (cvalue lastName)
                      (v_normalizeEmail P (cvalue email)) (v_toDate P (cvalue date)) (cvalue time)
            in case sendMail P m of
                 Inr u \<Rightarrow>
                   \<lparr>o_response = \<lparr>r_status = 200, r_success = True, r_message = None\<rparr>,
                    o_sent = [m], o_console = []\<rparr>
               | Inl err \<Rightarrow>
                   \<lparr>o_response = \<lparr>r_status = 500, r_success = False,
                                   r_message = Some (lit ''Failed to send.'')\<rparr>,
                    o_sent = [m],
                    o_console = [[0x274C] @ lit '' Booking failed: '' @ err_message err]\<rparr>))"

definition contact_mail ::
  "env \<Rightarrow> jsstring \<Rightarrow> jsval \<Rightarrow> jsstring \<Rightarrow> mail" where
  \<open>contact_mail E name email message =
     \<lparr>m_from = lit ''"LWA Website" <'' @ js_String (env_value (SMTP_USER E)) @ lit ''>'',
      m_to = env_value (BUSINESS_EMAIL E),
      m_replyTo = email,
      m_subject = [0x2709, 0xFE0F] @ lit '' New Message from '' @ sanitize (JStr name),
      m_html = contact_html (sanitize (JStr name)) (sanitize email)
                 (sanitize (JStr message))\<rparr>\<close>

text \<open>\<open>POST /api/contact\<close> (line 150).\<close>

definition contact :: "'d platform \<Rightarrow> env \<Rightarrow> reqbody \<Rightarrow> outcome" where
  "contact P E req =
     (let name = chain (body req ''name'') [v_trim, v_notEmpty, v_escape];
          email = chain (body req ''email'') [v_isEmail P];
          message = chain (body req ''message'')
                      [v_trim, v_notEmpty, v_isLength P 10 (Some 2000), v_escape]
      in if \<not> validationResult_isEmpty [name, email, message]
         then \<lparr>o_response = \<lparr>r_status = 400, r_success = False,
                               r_message = Some (lit ''Invalid data.'')\<rparr>,
               o_sent = [], o_console = []\<rparr>
         else
           (let m = contact_mail E (cvalue name) (v_normalizeEmail P (cvalue email)) (cvalue message)
            in case sendMail P m of
                 Inr u \<Rightarrow>
                   \<lparr>o_response = \<lparr>r_status = 200, r_success = True, r_message = None\<rparr>,
                    o_sent = [m], o_console = []\<rparr>
               | Inl err \<Rightarrow>
                   \<lparr>o_response = \<lparr>r_status = 500, r_success = False,
                                   r_message = Some (lit ''Failed to send.'')\<rparr>,
                    o_sent = [m],
                    o_console = [[0x274C] @ lit '' Contact failed: '' @ err_message err]\<rparr>))"

section \<open>The routes of the first program of src/unnamed/part_000\<close>

text \<open>
  \<open>mailOptions\<close> of the booking route (line 124), from the sanitized values
  \<open>safeFirst\<close>, \<open>safeLast\<close>, \<open>safeEmail\<close>, \<open>safeDate\<close> and \<open>safeTime\<close>.
\<close>

definition booking_mail_v1 ::
  "env \<Rightarrow> jsstring \<Rightarrow> jsstring \<Rightarrow> jsstring \<Rightarrow> jsstring \<Rightarrow> jsstring \<Rightarrow> mail" where
  \<open>booking_mail_v1 E safeFirst safeLast safeEmail safeDate safeTime =
     \<lparr>m_from = lit ''"LWA Website" <'' @ js_String (env_value (SMTP_USER E)) @ lit ''>'',
      m_to = env_value (BUSINESS_EMAIL E),
      m_replyTo = JStr safeEmail,
      m_subject = [0xD83D, 0xDCC5] @ lit '' New Booking Request '' @ [0x2014] @ lit '' '' @
                  safeFirst @ lit '' '' @ safeLast,
      m_html = booking_html_v1 safeFirst safeLast safeEmail safeDate safeTime\<rparr>\<close>

text \<open>\<open>POST /api/booking\<close> (line 101).\<close>

definition booking_v1 :: "'d platform \<Rightarrow> env \<Rightarrow> reqbody \<Rightarrow> outcome" where
  "booking_v1 P E req =
     (let firstName = chain (body req ''firstName'')
                        [v_trim, v_notEmpty, v_isLength P 0 (Some 50), v_escape];
          lastName = chain (body req ''lastName'')
                       [v_trim, v_notEmpty, v_isLength P 0 (Some 50), v_escape];
          email = chain (body req ''email'') [v_isEmail P];
          date = chain (body req ''date'') [v_notEmpty, v_isISO8601 P];
          time = chain (body req ''time'')
                   [v_notEmpty, v_trim, v_isLength P 0 (Some 20), v_escape]
      in if \<not> validationResult_isEmpty [firstName, lastName, email, date, time]
         then \<lparr>o_response = \<lparr>r_status = 400, r_success = False,
                               r_message = Some (lit ''Invalid form data. Please check all fields.'')\<rparr>,
               o_sent = [], o_console = []\<rparr>
         else
           (let safeFirst = sanitize_v1 (JStr (cvalue firstName));
                safeLast = sanitize_v1 (JStr (cvalue lastName));
                safeEmail = sanitize_v1 (v_normalizeEmail P (cvalue email));
                safeDate = toLocaleDateString_enUS P (v_toDate P (cvalue date));
                safeTime = sanitize_v1 (JStr (cvalue time));
                mailOptions = booking_mail_v1 E safeFirst safeLast safeEmail safeDate safeTime
            in case sendMail P mailOptions of
                 Inr u \<Rightarrow>
                   \<lparr>o_response = \<lparr>r_status = 200, r_success = True,
                                   r_message = Some (lit ''Booking confirmed! We will be in touch shortly.'')\<rparr>,
                    o_sent = [mailOptions],
                    o_console = [[0x2705] @ lit '' Booking email sent for '' @ safeEmail @
                                 lit '' at '' @ nowISO P]\<rparr>
               | Inl err \<Rightarrow>
                   \<lparr>o_response = \<lparr>r_status = 500, r_success = False,
                                   r_message = Some (lit ''Failed to send. Please try again or contact us directly.'')\<rparr>,
                    o_sent = [mailOptions],
                    o_console = [[0x274C] @ lit '' Booking email failed: '' @ err_message err]\<rparr>))"

definition contact_mail_v1 :: "env \<Rightarrow> jsstring \<Rightarrow> jsstring \<Rightarrow> jsstring \<Rightarrow> mail" where
  \<open>contact_mail_v1 E safeName safeEmail safeMessage =
     \<lparr>m_from = lit ''"LWA Website" <'' @ js_String (env_value (SMTP_USER E)) @ lit ''>'',
      m_to = env_value (BUSINESS_EMAIL E),
      m_replyTo = JStr safeEmail,
      m_subject = [0x2709, 0xFE0F] @ lit '' New Message from '' @ safeName,
      m_html = contact_html_v1 safeName safeEmail safeMessage\<rparr>\<close>

text \<open>\<open>POST /api/contact\<close> (line 175).\<close>

definition contact_v1 :: "'d platform \<Rightarrow> env \<Rightarrow> reqbody \<Rightarrow> outcome" where
  "contact_v1 P E req =
     (let name = chain (body req ''name'')
                   [v_trim, v_notEmpty, v_isLength P 0 (Some 100), v_escape];
          email = chain (body req ''email'') [v_isEmail P];
          message = chain (body req ''message'')
                      [v_trim, v_notEmpty, v_isLength P 10 (Some 2000), v_escape]
      in if \<not> validationResult_isEmpty [name, email, message]
         then \<lparr>o_response = \<lparr>r_status = 400, r_success = False,
                               r_message = Some (lit ''Invalid form data. Please check all fields.'')\<rparr>,
               o_sent = [], o_console = []\<rparr>
         else
           (let safeName = sanitize_v1 (JStr (cvalue name));
                safeEmail = sanitize_v1 (v_normalizeEmail P (cvalue email));
                safeMessage = sanitize_v1 (JStr (cvalue message));
                mailOptions = contact_mail_v1 E safeName safeEmail safeMessage
            in case sendMail P mailOptions of
                 Inr u \<Rightarrow>
                   \<lparr>o_response = \<lparr>r_status = 200, r_success = True,
                                   r_message = Some (lit ''Message sent! We will get back to you soon.'')\<rparr>,
                    o_sent = [mailOptions],
                    o_console = [[0x2705] @ lit '' Contact email sent from '' @ safeEmail @
                                 lit '' at '' @ nowISO P]\<rparr>
               | Inl err \<Rightarrow>
                   \<lparr>o_response = \<lparr>r_status = 500, r_success = False,
                                   r_message = Some (lit ''Failed to send. Please try again or contact us directly.'')\<rparr>,
                    o_sent = [mailOptions],
                    o_console = [[0x274C] @ lit '' Contact email failed: '' @ err_message err]\<rparr>))"

section \<open>Notions used to state the properties\<close>

text \<open>
  The BookingSubmission and ContactSubmission schemas of the specification, read on the
  raw request: text fields non-empty after trimming and within their length bounds, a
  valid e-mail address, an ISO 8601 date.
\<close>

definition booking_schema :: "'d platform \<Rightarrow> reqbody \<Rightarrow> bool" where
  "booking_schema P req =
     (trim (field req ''firstName'') \<noteq> [] \<and> strlen P (trim (field req ''firstName'')) \<le> 50 \<and>
      trim (field req ''lastName'') \<noteq> [] \<and> strlen P (trim (field req ''lastName'')) \<le> 50 \<and>
      isEmail P (field req ''email'') \<and>
      field req ''date'' \<noteq> [] \<and> isISO8601 P (field req ''date'') \<and>
      trim (field req ''time'') \<noteq> [] \<and> strlen P (trim (field req ''time'')) \<le> 20)"

definition contact_schema :: "'d platform \<Rightarrow> reqbody \<Rightarrow> bool" where
  "contact_schema P req =
     (trim (field req ''name'') \<noteq> [] \<and> strlen P (trim (field req ''name'')) \<le> 100 \<and>
      isEmail P (field req ''email'') \<and>
      trim (field req ''message'') \<noteq> [] \<and>
      10 \<le> strlen P (trim (field req ''message'')) \<and>
      strlen P (trim (field req ''message'')) \<le> 2000)"

text \<open>
  What the chains of each route accept, read off the chains: a request is validated by
  a route when none of its chains records an error.
\<close>

definition booking_valid :: "'d platform \<Rightarrow> reqbody \<Rightarrow> bool" where
  "booking_valid P req =
     (trim (field req ''firstName'') \<noteq> [] \<and> trim (field req ''lastName'') \<noteq> [] \<and>
      isEmail P (field req ''email'') \<and>
      field req ''date'' \<noteq> [] \<and> isISO8601 P (field req ''date'') \<and>
      field req ''time'' \<noteq> [])"

definition booking_valid_v1 :: "'d platform \<Rightarrow> reqbody \<Rightarrow> bool" where
  "booking_valid_v1 P req =
     (booking_valid P req \<and>
      strlen P (trim (field req ''firstName'')) \<le> 50 \<and>
      strlen P (trim (field req ''lastName'')) \<le> 50 \<and>
      strlen P (trim (field req ''time'')) \<le> 20)"

definition contact_valid :: "'d platform \<Rightarrow> reqbody \<Rightarrow> bool" where
  "contact_valid P req =
     (trim (field req ''name'') \<noteq> [] \<and> isEmail P (field req ''email'') \<and>
      trim (field req ''message'') \<noteq> [] \<and>
      10 \<le> strlen P (trim (field req ''message'')) \<and>
      strlen P (trim (field req ''message'')) \<le> 2000)"

definition contact_valid_v1 :: "'d platform \<Rightarrow> reqbody \<Rightarrow> bool" where
  "contact_valid_v1 P req =
     (contact_valid P req \<and> strlen P (trim (field req ''name'')) \<le> 100)"

text \<open>
  The message each route builds for a request that passed its chains: text fields
  trimmed and escaped, the address normalised, the date converted.
\<close>

definition booking_message :: "'d platform \<Rightarrow> env \<Rightarrow> reqbody \<Rightarrow> mail" where
  "booking_message P E req =
     booking_mail P E (escape (trim (field req ''firstName'')))
       (escape (trim (field req ''lastName'')))
       (v_normalizeEmail P (field req ''email''))
       (v_toDate P (field req ''date''))
       (escape (trim (field req ''time'')))"

definition booking_message_v1 :: "'d platform \<Rightarrow> env \<Rightarrow> reqbody \<Rightarrow> mail" where
  "booking_message_v1 P E req =
     booking_mail_v1 E (sanitize_v1 (JStr (escape (trim (field req ''firstName'')))))
       (sanitize_v1 (JStr (escape (trim (field req ''lastName'')))))
       (sanitize_v1 (v_normalizeEmail P (field req ''email'')))
       (toLocaleDateString_enUS P (v_toDate P (field req ''date'')))
       (sanitize_v1 (JStr (escape (trim (field req ''time'')))))"

definition contact_message :: "'d platform \<Rightarrow> env \<Rightarrow> reqbody \<Rightarrow> mail" where
  "contact_message P E req =
     contact_mail E (escape (trim (field req ''name'')))
       (v_normalizeEmail P (field req ''email''))
       (escape (trim (field req ''message'')))"

definition contact_message_v1 :: "'d platform \<Rightarrow> env \<Rightarrow> reqbody \<Rightarrow> mail" where
  "contact_message_v1 P E req =
     contact_mail_v1 E (sanitize_v1 (JStr (escape (trim (field req ''name'')))))
       (sanitize_v1 (v_normalizeEmail P (field req ''email'')))
       (sanitize_v1 (JStr (escape (trim (field req ''message'')))))"

text \<open>The fixed responses of the two programs.\<close>

definition invalid_data :: response where
  "invalid_data = \<lparr>r_status = 400, r_success = False, r_message = Some (lit ''Invalid data.'')\<rparr>"

definition failed_to_send :: response where
  "failed_to_send =
     \<lparr>r_status = 500, r_success = False, r_message = Some (lit ''Failed to send.'')\<rparr>"

definition invalid_data_v1 :: response where
  "invalid_data_v1 =
     \<lparr>r_status = 400, r_success = False,
      r_message = Some (lit ''Invalid form data. Please check all fields.'')\<rparr>"

definition failed_to_send_v1 :: response where
  "failed_to_send_v1 =
     \<lparr>r_status = 500, r_success = False,
      r_message = Some (lit ''Failed to send. Please try again or contact us directly.'')\<rparr>"

text \<open>
  A platform for the worked examples. It fixes the collaborators' answers on the inputs
  used below: validator.js accepts \<open>bob@example.com\<close> and \<open>Bob@Example.com\<close> as
  addresses and normalises the second to the first (it lower-cases an address), accepts
  \<open>2030-01-15\<close> as an ISO 8601 date, and counts a string of ASCII characters by its
  code units; the transport accepts every message.
\<close>

definition demo_platform :: "jsstring platform" where
  "demo_platform =
     \<lparr>isEmail = (\<lambda>s. s = lit ''bob@example.com'' \<or> s = lit ''Bob@Example.com''),
      normalizeEmail =
        (\<lambda>s. if s = lit ''Bob@Example.com'' then Some (lit ''bob@example.com'') else Some s),
      isISO8601 = (\<lambda>s. s = lit ''2030-01-15''),
      toDate = (\<lambda>s. s),
      strlen = length,
      toLocaleDateString = (\<lambda>d. lit ''1/15/2030''),
      toLocaleDateString_enUS = (\<lambda>d. lit ''Tuesday, January 15, 2030''),
      nowISO = lit ''2029-12-01T09:00:00.000Z'',
      sendMail = (\<lambda>m. Inr ())\<rparr>"

definition demo_env :: env where
  "demo_env =
     \<lparr>SMTP_USER = Some (lit ''info@example.com''),
      BUSINESS_EMAIL = Some (lit ''owner@example.com'')\<rparr>"

text \<open>The example platform with validator.js's own count in \<open>isLength\<close>.\<close>

definition validator_platform :: "jsstring platform" where
  "validator_platform = demo_platform\<lparr>strlen := isLength_count\<rparr>"

text \<open>
  A string is tight when trimming leaves it alone: it is empty, or neither its first nor
  its last code unit is white space.
\<close>

definition tight :: "jsstring \<Rightarrow> bool" where
  "tight s = (s = [] \<or> (\<not> isWhiteSpace (hd s) \<and> \<not> isWhiteSpace (last s)))"

text \<open>Requests for the worked examples.\<close>

definition bob_contact :: reqbody where
  "bob_contact =
     [''name'' \<mapsto> lit ''<b>Bob</b>'', ''email'' \<mapsto> lit ''bob@example.com'',
      ''message'' \<mapsto> lit ''Hello there, need help'']"

definition bob_booking :: reqbody where
  "bob_booking =
     [''firstName'' \<mapsto> lit ''Bob'', ''lastName'' \<mapsto> lit ''Smith'',
      ''email'' \<mapsto> lit ''Bob@Example.com'', ''date'' \<mapsto> lit ''2030-01-15'',
      ''time'' \<mapsto> lit ''10:30'']"

section \<open>Facts about the string operations\<close>

lemma replace_g_Nil: "replace_g c r [] = []"
  by (simp add: replace_g_def)

lemma replace_g_Cons: "replace_g c r (x # xs) = (if x = c then r else [x]) @ replace_g c r xs"
  by (simp add: replace_g_def)


lemma replace_g_absent: "c \<notin> set s \<Longrightarrow> replace_g c r s = s"
  by (induction s) (auto simp: replace_g_Nil replace_g_Cons)

lemma set_replace_g: "set (replace_g c r s) \<subseteq> set r \<union> (set s - {c})"
  by (induction s) (auto simp: replace_g_Nil replace_g_Cons)

lemma replace_g_removes: "c \<notin> set r \<Longrightarrow> c \<notin> set (replace_g c r s)"
  using set_replace_g [of c r s] by auto

lemma replace_g_keeps_out: "x \<notin> set r \<Longrightarrow> x \<notin> set s \<Longrightarrow> x \<notin> set (replace_g c r s)"
  using set_replace_g [of c r s] by auto

lemma set_trim: "set (trim s) \<subseteq> set s"
proof -
  have "set (rtrim t) \<subseteq> set t" for t
    using set_dropWhileD [of _ isWhiteSpace "rev t"] by (auto simp: rtrim_def)
  moreover have "set (ltrim s) \<subseteq> set s"
    using set_dropWhileD [of _ isWhiteSpace s] by (auto simp: ltrim_def)
  ultimately show ?thesis unfolding trim_def by blast
qed

lemma substring_from_0: "substring s 0 n = take n s"
  by (simp add: substring_def Let_def min_def)

lemma set_substring: "set (substring s a b) \<subseteq> set s"
  unfolding substring_def Let_def
  by (meson set_take_subset set_drop_subset subset_trans)

lemma length_substring_0: "length (substring s 0 n) \<le> n"
  by (simp add: substring_from_0)

lemma lt_not_in_entities:
  "chr_lt \<notin> set (lit ''&lt;'')" "chr_lt \<notin> set (lit ''&gt;'')"
  "chr_lt \<notin> set (lit ''&quot;'')" "chr_lt \<notin> set (lit ''&#x27;'')"
  "chr_gt \<notin> set (lit ''&lt;'')" "chr_gt \<notin> set (lit ''&gt;'')"
  "chr_gt \<notin> set (lit ''&quot;'')" "chr_gt \<notin> set (lit ''&#x27;'')"
  by (simp_all add: lit_def chr_lt_def chr_gt_def)

lemma sanitize_props:
  "length (sanitize v) \<le> 500" "chr_lt \<notin> set (sanitize v)" "chr_gt \<notin> set (sanitize v)"
proof -
  let ?e = "replace_g chr_gt (lit ''&gt;'') (replace_g chr_lt (lit ''&lt;'') (js_String v))"
  have lt: "chr_lt \<notin> set ?e"
    by (intro replace_g_keeps_out replace_g_removes lt_not_in_entities)
  have gt: "chr_gt \<notin> set ?e"
    by (intro replace_g_removes lt_not_in_entities)
  have sub: "set (sanitize v) \<subseteq> set ?e"
    using set_substring [of "trim ?e" 0 500] set_trim [of ?e]
    by (auto simp: sanitize_def)
  show "length (sanitize v) \<le> 500"
    by (simp add: sanitize_def length_substring_0)
  show "chr_lt \<notin> set (sanitize v)" using lt sub by blast
  show "chr_gt \<notin> set (sanitize v)" using gt sub by blast
qed

lemma sanitize_v1_props:
  "length (sanitize_v1 v) \<le> 500" "chr_lt \<notin> set (sanitize_v1 v)" "chr_gt \<notin> set (sanitize_v1 v)"
proof -
  let ?e = "replace_g chr_apos (lit ''&#x27;'') (replace_g chr_quot (lit ''&quot;'')
     (replace_g chr_gt (lit ''&gt;'') (replace_g chr_lt (lit ''&lt;'') (js_String v))))"
  have lt: "chr_lt \<notin> set ?e"
    by (intro replace_g_keeps_out replace_g_removes lt_not_in_entities)
  have gt: "chr_gt \<notin> set ?e"
    by (intro replace_g_keeps_out replace_g_removes lt_not_in_entities)
  have sub: "set (sanitize_v1 v) \<subseteq> set ?e"
    using set_substring [of "trim ?e" 0 500] set_trim [of ?e]
    by (auto simp: sanitize_v1_def)
  show "length (sanitize_v1 v) \<le> 500"
    by (simp add: sanitize_v1_def length_substring_0)
  show "chr_lt \<notin> set (sanitize_v1 v)" using lt sub by blast
  show "chr_gt \<notin> set (sanitize_v1 v)" using gt sub by blast
qed





lemma trim_tight: "tight s \<Longrightarrow> trim s = s"
proof (cases "s = []")
  case True then show ?thesis by (simp add: trim_def ltrim_def rtrim_def)
next
  case False
  assume "tight s"
  with False have h: "\<not> isWhiteSpace (hd s)" and l: "\<not> isWhiteSpace (last s)"
    by (auto simp: tight_def)
  have "ltrim s = s" using False h by (cases s) (auto simp: ltrim_def)
  moreover have "rtrim s = s"
    using False l by (cases s rule: rev_cases) (auto simp: rtrim_def)
  ultimately show ?thesis by (simp add: trim_def)
qed











section \<open>What the chains and the routes compute\<close>

lemmas chain_defs =
  chain_def body_def sanitizer_def validator_def v_trim_def v_escape_def v_notEmpty_def
  v_isLength_def v_isEmail_def v_isISO8601_def isEmpty_def isLength_def

lemma chain_text:
  "chain (body req f) [v_trim, v_notEmpty, v_escape] =
     \<lparr>cvalue = escape (trim (field req f)),
      cerrors = (if trim (field req f) = [] then 1 else 0)\<rparr>"
  by (simp add: chain_defs)

lemma chain_text_max:
  "chain (body req f) [v_trim, v_notEmpty, v_isLength P 0 (Some n), v_escape] =
     \<lparr>cvalue = escape (trim (field req f)),
      cerrors = (if trim (field req f) = [] then 1 else 0) +
                (if n < strlen P (trim (field req f)) then 1 else 0)\<rparr>"
  by (simp add: chain_defs)

lemma chain_text_min_max:
  "chain (body req f) [v_trim, v_notEmpty, v_isLength P lo (Some hi), v_escape] =
     \<lparr>cvalue = escape (trim (field req f)),
      cerrors = (if trim (field req f) = [] then 1 else 0) +
                (if lo \<le> strlen P (trim (field req f)) \<and> strlen P (trim (field req f)) \<le> hi
                 then 0 else 1)\<rparr>"
  by (simp add: chain_defs)

lemma chain_time:
  "chain (body req f) [v_notEmpty, v_trim, v_escape] =
     \<lparr>cvalue = escape (trim (field req f)),
      cerrors = (if field req f = [] then 1 else 0)\<rparr>"
  by (simp add: chain_defs)

lemma chain_time_max:
  "chain (body req f) [v_notEmpty, v_trim, v_isLength P 0 (Some n), v_escape] =
     \<lparr>cvalue = escape (trim (field req f)),
      cerrors = (if field req f = [] then 1 else 0) +
                (if n < strlen P (trim (field req f)) then 1 else 0)\<rparr>"
  by (simp add: chain_defs)

lemma chain_email:
  "chain (body req f) [v_isEmail P] =
     \<lparr>cvalue = field req f, cerrors = (if isEmail P (field req f) then 0 else 1)\<rparr>"
  by (simp add: chain_defs)

lemma chain_date:
  "chain (body req f) [v_notEmpty, v_isISO8601 P] =
     \<lparr>cvalue = field req f,
      cerrors = (if field req f = [] then 1 else 0) +
                (if isISO8601 P (field req f) then 0 else 1)\<rparr>"
  by (simp add: chain_defs)

lemmas chain_results =
  chain_text chain_text_max chain_text_min_max chain_time chain_time_max chain_email chain_date
  validationResult_isEmpty_def

lemma booking_validated:
  "validationResult_isEmpty
     [chain (body req ''firstName'') [v_trim, v_notEmpty, v_escape],
      chain (body req ''lastName'') [v_trim, v_notEmpty, v_escape],
      chain (body req ''email'') [v_isEmail P],
      chain (body req ''date'') [v_notEmpty, v_isISO8601 P],
      chain (body req ''time'') [v_notEmpty, v_trim, v_escape]] = booking_valid P req"
  by (auto simp: chain_results booking_valid_def)

lemma booking_v1_validated:
  "validationResult_isEmpty
     [chain (body req ''firstName'') [v_trim, v_notEmpty, v_isLength P 0 (Some 50), v_escape],
      chain (body req ''lastName'') [v_trim, v_notEmpty, v_isLength P 0 (Some 50), v_escape],
      chain (body req ''email'') [v_isEmail P],
      chain (body req ''date'') [v_notEmpty, v_isISO8601 P],
      chain (body req ''time'') [v_notEmpty, v_trim, v_isLength P 0 (Some 20), v_escape]] =
   booking_valid_v1 P req"
  by (auto simp: chain_results booking_valid_v1_def booking_valid_def)

lemma contact_validated:
  "validationResult_isEmpty
     [chain (body req ''name'') [v_trim, v_notEmpty, v_escape],
      chain (body req ''email'') [v_isEmail P],
      chain (body req ''message'')
        [v_trim, v_notEmpty, v_isLength P 10 (Some 2000), v_escape]] = contact_valid P req"
  by (auto simp: chain_results contact_valid_def)

lemma contact_v1_validated:
  "validationResult_isEmpty
     [chain (body req ''name'') [v_trim, v_notEmpty, v_isLength P 0 (Some 100), v_escape],
      chain (body req ''email'') [v_isEmail P],
      chain (body req ''message'')
        [v_trim, v_notEmpty, v_isLength P 10 (Some 2000), v_escape]] = contact_valid_v1 P req"
  by (auto simp: chain_results contact_valid_v1_def contact_valid_def)

lemma booking_unfold:
  "booking P E req =
     (if trim (field req ''firstName'') = [] \<or> trim (field req ''lastName'') = [] \<or>
         \<not> isEmail P (field req ''email'') \<or> field req ''date'' = [] \<or>
         \<not> isISO8601 P (field req ''date'') \<or> field req ''time'' = []
      then \<lparr>o_response = invalid_data, o_sent = [], o_console = []\<rparr>
      else case sendMail P (booking_message P E req) of
             Inr u \<Rightarrow>
               \<lparr>o_response = \<lparr>r_status = 200, r_success = True, r_message = None\<rparr>,
                o_sent = [booking_message P E req], o_console = []\<rparr>
           | Inl err \<Rightarrow>
               \<lparr>o_response = failed_to_send, o_sent = [booking_message P E req],
                o_console = [[0x274C] @ lit '' Booking failed: '' @ err_message err]\<rparr>)"
  by (simp add: booking_def Let_def chain_results booking_message_def invalid_data_def
      failed_to_send_def split: sum.splits)

lemma contact_unfold:
  "contact P E req =
     (if trim (field req ''name'') = [] \<or> \<not> isEmail P (field req ''email'') \<or>
         trim (field req ''message'') = [] \<or>
         \<not> (10 \<le> strlen P (trim (field req ''message'')) \<and>
            strlen P (trim (field req ''message'')) \<le> 2000)
      then \<lparr>o_response = invalid_data, o_sent = [], o_console = []\<rparr>
      else case sendMail P (contact_message P E req) of
             Inr u \<Rightarrow>
               \<lparr>o_response = \<lparr>r_status = 200, r_success = True, r_message = None\<rparr>,
                o_sent = [contact_message P E req], o_console = []\<rparr>
           | Inl err \<Rightarrow>
               \<lparr>o_response = failed_to_send, o_sent = [contact_message P E req],
                o_console = [[0x274C] @ lit '' Contact failed: '' @ err_message err]\<rparr>)"
  by (simp add: contact_def Let_def chain_results contact_message_def invalid_data_def
      failed_to_send_def split: sum.splits)

lemma booking_v1_unfold:
  "booking_v1 P E req =
     (if trim (field req ''firstName'') = [] \<or> 50 < strlen P (trim (field req ''firstName'')) \<or>
         trim (field req ''lastName'') = [] \<or> 50 < strlen P (trim (field req ''lastName'')) \<or>
         \<not> isEmail P (field req ''email'') \<or> field req ''date'' = [] \<or>
         \<not> isISO8601 P (field req ''date'') \<or> field req ''time'' = [] \<or>
         20 < strlen P (trim (field req ''time''))
      then \<lparr>o_response = invalid_data_v1, o_sent = [], o_console = []\<rparr>
      else case sendMail P (booking_message_v1 P E req) of
             Inr u \<Rightarrow>
               \<lparr>o_response = \<lparr>r_status = 200, r_success = True,
                  r_message = Some (lit ''Booking confirmed! We will be in touch shortly.'')\<rparr>,
                o_sent = [booking_message_v1 P E req],
                o_console = [[0x2705] @ lit '' Booking email sent for '' @
                   sanitize_v1 (v_normalizeEmail P (field req ''email'')) @ lit '' at '' @ nowISO P]\<rparr>
           | Inl err \<Rightarrow>
               \<lparr>o_response = failed_to_send_v1, o_sent = [booking_message_v1 P E req],
                o_console = [[0x274C] @ lit '' Booking email failed: '' @ err_message err]\<rparr>)"
  by (simp add: booking_v1_def Let_def chain_results booking_message_v1_def invalid_data_v1_def
      failed_to_send_v1_def not_le split: sum.splits)

lemma contact_v1_unfold:
  "contact_v1 P E req =
     (if trim (field req ''name'') = [] \<or> 100 < strlen P (trim (field req ''name'')) \<or>
         \<not> isEmail P (field req ''email'') \<or>
         trim (field req ''message'') = [] \<or>
         \<not> (10 \<le> strlen P (trim (field req ''message'')) \<and>
            strlen P (trim (field req ''message'')) \<le> 2000)
      then \<lparr>o_response = invalid_data_v1, o_sent = [], o_console = []\<rparr>
      else case sendMail P (contact_message_v1 P E req) of
             Inr u \<Rightarrow>
               \<lparr>o_response = \<lparr>r_status = 200, r_success = True,
                  r_message = Some (lit ''Message sent! We will get back to you soon.'')\<rparr>,
                o_sent = [contact_message_v1 P E req],
                o_console = [[0x2705] @ lit '' Contact email sent from '' @
                   sanitize_v1 (v_normalizeEmail P (field req ''email'')) @ lit '' at '' @ nowISO P]\<rparr>
           | Inl err \<Rightarrow>
               \<lparr>o_response = failed_to_send_v1, o_sent = [contact_message_v1 P E req],
                o_console = [[0x274C] @ lit '' Contact email failed: '' @ err_message err]\<rparr>)"
  by (simp add: contact_v1_def Let_def chain_results contact_message_v1_def invalid_data_v1_def
      failed_to_send_v1_def not_le split: sum.splits)

lemmas eval_defs =
  lit_def trim_def ltrim_def rtrim_def isWhiteSpace_def field_def escape_def replace_g_def
  chr_LF_def chr_lt_def chr_gt_def chr_quot_def chr_apos_def chr_amp_def chr_slash_def
  chr_bslash_def chr_btick_def substring_def

lemma rtrim_snoc_space: "isWhiteSpace c \<Longrightarrow> rtrim (s @ [c]) = rtrim s"
  by (simp add: rtrim_def)

lemma tight_run: "\<not> isWhiteSpace a \<Longrightarrow> tight (a # replicate n a)"
  by (cases n) (simp_all add: tight_def)

lemma tight_run_end: "\<not> isWhiteSpace a \<Longrightarrow> tight (a # replicate n a @ [c, a])"
  by (simp add: tight_def)

lemma sanitize_plain:
  "s \<noteq> [] \<Longrightarrow> chr_lt \<notin> set s \<Longrightarrow> chr_gt \<notin> set s \<Longrightarrow> sanitize (JStr s) = take 500 (trim s)"
  by (simp add: sanitize_def replace_g_absent substring_from_0)

section \<open>The worked examples\<close>

lemma trim_Nil: "trim [] = []"
  by (simp add: trim_def ltrim_def rtrim_def)

lemma trim_nonempty_source: "trim s \<noteq> [] \<Longrightarrow> s \<noteq> []"
  using trim_Nil by auto

lemma trim_run: "trim (0x61 # replicate n 0x61) = 0x61 # replicate n 0x61"
  by (rule trim_tight, rule tight_run) (simp add: isWhiteSpace_def)



lemma demo_booking_accepted:
  "booking demo_platform demo_env bob_booking =
     \<lparr>o_response = \<lparr>r_status = 200, r_success = True, r_message = None\<rparr>,
      o_sent = [booking_message demo_platform demo_env bob_booking], o_console = []\<rparr>"
  by (simp add: booking_unfold) (simp add: demo_platform_def bob_booking_def eval_defs)

lemma demo_booking_v1_sent:
  "o_sent (booking_v1 demo_platform demo_env bob_booking) =
     [booking_message_v1 demo_platform demo_env bob_booking]"
  by (simp add: booking_v1_unfold) (simp add: demo_platform_def bob_booking_def eval_defs)

lemma demo_booking_address:
  "v_normalizeEmail demo_platform (field bob_booking ''email'') = JStr (lit ''bob@example.com'')"
  by (simp add: v_normalizeEmail_def demo_platform_def bob_booking_def field_def)

lemma sanitize_v1_bob_address:
  "sanitize_v1 (JStr (lit ''bob@example.com'')) = lit ''bob@example.com''"
  by (simp add: sanitize_v1_def eval_defs)


lemma bob_contact_values:
  "trim (lit ''<b>Bob</b>'') = lit ''<b>Bob</b>''"
  "trim (lit ''Hello there, need help'') = lit ''Hello there, need help''"
  "escape (lit ''<b>Bob</b>'') = lit ''&lt;b&gt;Bob&lt;&#x2F;b&gt;''"
  "escape (lit ''Hello there, need help'') = lit ''Hello there, need help''"
  by (simp_all add: eval_defs)






lemma contact_schema_accepts:
  assumes "contact_schema P req"
  shows "contact P E req =
      (case sendMail P (contact_message P E req) of
         Inr u \<Rightarrow> \<lparr>o_response = \<lparr>r_status = 200, r_success = True, r_message = None\<rparr>,
                    o_sent = [contact_message P E req], o_console = []\<rparr>
       | Inl err \<Rightarrow> \<lparr>o_response = failed_to_send, o_sent = [contact_message P E req],
                    o_console = [[0x274C] @ lit '' Contact failed: '' @ err_message err]\<rparr>)"
  using assms by (simp add: contact_unfold contact_schema_def)

lemma contact_v1_schema_accepts:
  assumes "contact_schema P req" and "sendMail P (contact_message_v1 P E req) = Inr ()"
  shows "r_success (o_response (contact_v1 P E req))"
    and "o_sent (contact_v1 P E req) = [contact_message_v1 P E req]"
  using assms by (simp_all add: contact_v1_unfold contact_schema_def not_less [symmetric])

lemma contact_message_subject:
  "m_subject (contact_message P E req) =
     [0x2709, 0xFE0F] @ lit '' New Message from '' @
     sanitize (JStr (escape (trim (field req ''name''))))"
  by (simp add: contact_message_def contact_mail_def)

lemma contact_message_v1_subject:
  "m_subject (contact_message_v1 P E req) =
     [0x2709, 0xFE0F] @ lit '' New Message from '' @
     sanitize_v1 (JStr (escape (trim (field req ''name''))))"
  by (simp add: contact_message_v1_def contact_mail_v1_def)

lemma booking_message_subject:
  "m_subject (booking_message P E req) =
     [0xD83D, 0xDCC5] @ lit '' New Booking '' @ [0x2014] @ lit '' '' @
     sanitize (JStr (escape (trim (field req ''firstName'')))) @ lit '' '' @
     sanitize (JStr (escape (trim (field req ''lastName''))))"
  by (simp add: booking_message_def booking_mail_def)

lemma booking_valid_accepts:
  assumes "booking_valid P req" and "sendMail P (booking_message P E req) = Inr ()"
  shows "o_sent (booking P E req) = [booking_message P E req]"
  using assms by (simp add: booking_unfold booking_valid_def)

lemma surrogatePairs_none: "\<forall>c\<in>set s. \<not> isHighSurrogate c \<Longrightarrow> surrogatePairs s = 0"
  by (induction s rule: surrogatePairs.induct) auto

lemma isLength_count_run: "isLength_count (0x61 # replicate n 0x61) = Suc n"
  by (simp add: isLength_count_def isVariationSelector_def surrogatePairs_none
      isHighSurrogate_def)

lemma isLength_count_run_selector:
  "isLength_count (0x61 # replicate n 0x61 @ [0xFE0F]) = Suc n"
  by (simp add: isLength_count_def isVariationSelector_def surrogatePairs_none
      isHighSurrogate_def)

lemma trim_run_selector:
  "trim (0x61 # replicate n 0x61 @ [0xFE0F]) = 0x61 # replicate n 0x61 @ [0xFE0F]"
  by (rule trim_tight) (simp add: tight_def isWhiteSpace_def)

lemma validator_platform_fields:
  "strlen validator_platform = isLength_count"
  "isEmail validator_platform = isEmail demo_platform"
  "sendMail validator_platform m = Inr ()"
  by (simp_all add: validator_platform_def demo_platform_def)

lemmas count_defs =
  isLength_count_def isVariationSelector_def isHighSurrogate_def isLowSurrogate_def

section \<open>The properties\<close>

subsection \<open>The sanitizer is total and bounded\<close>

text \<open>
  Claim C1. For every input value (undefined, null, a boolean, the empty string, a
  string of any length), \<open>sanitize\<close> returns a string of at most 500 code units that
  contains neither \<open><\<close> nor \<open>>\<close>. This holds for the helper of
  \<open>src/server.js\<close> and for that of \<open>src/unnamed/part_000\<close>; both are total
  functions of the model, so a result exists for every input.
\<close>

theorem sanitize_total_bounded_no_angle:
  "length (sanitize v) \<le> 500 \<and> chr_lt \<notin> set (sanitize v) \<and> chr_gt \<notin> set (sanitize v) \<and>
   length (sanitize_v1 v) \<le> 500 \<and> chr_lt \<notin> set (sanitize_v1 v) \<and> chr_gt \<notin> set (sanitize_v1 v)"
  by (intro conjI sanitize_props sanitize_v1_props)

subsection \<open>A valid booking is dispatched once\<close>

text \<open>
  Claim C2 says that the reply-to address equals the submitted address. The chain of the
  \<open>email\<close> field ends in \<open>normalizeEmail()\<close>, so the handler reads the normalised
  address: for the valid booking \<open>bob_booking\<close>, submitted with
  \<open>Bob@Example.com\<close>, both programs send one message whose reply-to is
  \<open>bob@example.com\<close>.
\<close>

theorem booking_reply_to_not_submitted_address:
  "field bob_booking ''email'' = lit ''Bob@Example.com'' \<and>
   booking_schema demo_platform bob_booking \<and>
   r_success (o_response (booking demo_platform demo_env bob_booking)) \<and>
   map m_replyTo (o_sent (booking demo_platform demo_env bob_booking)) =
     [JStr (lit ''bob@example.com'')] \<and>
   map m_replyTo (o_sent (booking_v1 demo_platform demo_env bob_booking)) =
     [JStr (lit ''bob@example.com'')] \<and>
   JStr (lit ''bob@example.com'') \<noteq> JStr (lit ''Bob@Example.com'')"
proof (intro conjI)
  show "field bob_booking ''email'' = lit ''Bob@Example.com''"
    by (simp add: bob_booking_def field_def)
  show "booking_schema demo_platform bob_booking"
    by (simp add: booking_schema_def demo_platform_def bob_booking_def eval_defs)
  show "r_success (o_response (booking demo_platform demo_env bob_booking))"
    by (simp add: demo_booking_accepted)
  show "map m_replyTo (o_sent (booking demo_platform demo_env bob_booking)) =
          [JStr (lit ''bob@example.com'')]"
    by (simp add: demo_booking_accepted booking_message_def booking_mail_def
        demo_booking_address)
  show "map m_replyTo (o_sent (booking_v1 demo_platform demo_env bob_booking)) =
          [JStr (lit ''bob@example.com'')]"
    by (simp add: demo_booking_v1_sent booking_message_v1_def booking_mail_v1_def
        demo_booking_address sanitize_v1_bob_address)
  show "JStr (lit ''bob@example.com'') \<noteq> JStr (lit ''Bob@Example.com'')"
    by (simp add: lit_def)
qed

text \<open>
  Claim C2, amended. For every request that satisfies the booking schema, when the
  transport accepts the message, the booking route answers 200 with \<open>success: true\<close>
  and hands exactly one message to the transport. Its reply-to is the submitted address
  as \<open>normalizeEmail\<close> returns it in \<open>src/server.js\<close>, and \<open>sanitize\<close> of
  that value in \<open>src/unnamed/part_000\<close>.
\<close>

theorem booking_valid_dispatches_once:
  assumes "booking_schema P req"
    and "sendMail P (booking_message P E req) = Inr ()"
    and "sendMail P (booking_message_v1 P E req) = Inr ()"
  shows "r_status (o_response (booking P E req)) = 200 \<and>
         r_success (o_response (booking P E req)) \<and>
         o_sent (booking P E req) = [booking_message P E req] \<and>
         m_replyTo (booking_message P E req) = v_normalizeEmail P (field req ''email'') \<and>
         r_status (o_response (booking_v1 P E req)) = 200 \<and>
         r_success (o_response (booking_v1 P E req)) \<and>
         o_sent (booking_v1 P E req) = [booking_message_v1 P E req] \<and>
         m_replyTo (booking_message_v1 P E req) =
           JStr (sanitize_v1 (v_normalizeEmail P (field req ''email'')))"
proof -
  from assms(1) have ok:
    "trim (field req ''firstName'') \<noteq> []" "strlen P (trim (field req ''firstName'')) \<le> 50"
    "trim (field req ''lastName'') \<noteq> []" "strlen P (trim (field req ''lastName'')) \<le> 50"
    "isEmail P (field req ''email'')" "field req ''date'' \<noteq> []" "isISO8601 P (field req ''date'')"
    "field req ''time'' \<noteq> []" "strlen P (trim (field req ''time'')) \<le> 20"
    by (auto simp: booking_schema_def dest: trim_nonempty_source)
  have a: "booking P E req =
      \<lparr>o_response = \<lparr>r_status = 200, r_success = True, r_message = None\<rparr>,
       o_sent = [booking_message P E req], o_console = []\<rparr>"
    using ok assms(2) by (simp add: booking_unfold)
  have b: "o_response (booking_v1 P E req) =
      \<lparr>r_status = 200, r_success = True,
       r_message = Some (lit ''Booking confirmed! We will be in touch shortly.'')\<rparr> \<and>
      o_sent (booking_v1 P E req) = [booking_message_v1 P E req]"
    using ok assms(3) by (simp add: booking_v1_unfold not_less [symmetric])
  show ?thesis
    using a b by (simp add: booking_message_def booking_mail_def booking_message_v1_def
        booking_mail_v1_def)
qed

text \<open>
  The booking \<open>bob_booking\<close> satisfies the schema on the example platform, and the
  theorem gives its single message and reply-to address.
\<close>

theorem booking_valid_dispatches_once_witness:
  "booking_schema demo_platform bob_booking \<and>
   sendMail demo_platform (booking_message demo_platform demo_env bob_booking) = Inr () \<and>
   sendMail demo_platform (booking_message_v1 demo_platform demo_env bob_booking) = Inr () \<and>
   r_status (o_response (booking demo_platform demo_env bob_booking)) = 200 \<and>
   o_sent (booking demo_platform demo_env bob_booking) =
     [booking_message demo_platform demo_env bob_booking] \<and>
   m_replyTo (booking_message demo_platform demo_env bob_booking) =
     JStr (lit ''bob@example.com'') \<and>
   r_status (o_response (booking_v1 demo_platform demo_env bob_booking)) = 200 \<and>
   o_sent (booking_v1 demo_platform demo_env bob_booking) =
     [booking_message_v1 demo_platform demo_env bob_booking] \<and>
   m_replyTo (booking_message_v1 demo_platform demo_env bob_booking) =
     JStr (lit ''bob@example.com'')"
proof -
  have h1: "booking_schema demo_platform bob_booking"
    by (simp add: booking_schema_def demo_platform_def bob_booking_def eval_defs)
  have h2: "sendMail demo_platform (booking_message demo_platform demo_env bob_booking) = Inr ()"
    and h3: "sendMail demo_platform (booking_message_v1 demo_platform demo_env bob_booking) = Inr ()"
    by (simp_all add: demo_platform_def)
  from booking_valid_dispatches_once [OF h1 h2 h3] h1 h2 h3
  show ?thesis by (simp add: demo_booking_address sanitize_v1_bob_address)
qed

subsection \<open>Contact messages outside the length bounds\<close>

text \<open>
  Claim C3 says that a message whose trimmed length is above 2000 characters is
  rejected. \<open>isLength\<close> does not count variation selectors (nor the second half of a
  surrogate pair): a message of 2000 letters followed by U+FE0F has 2001 code units after
  trimming, counts 2000, and is accepted and mailed by both programs.
\<close>

theorem contact_accepts_2001_code_units:
  "length (trim (field (bob_contact(''message'' \<mapsto> 0x61 # replicate 1999 0x61 @ [0xFE0F]))
                   ''message'')) = 2001 \<and>
   r_status (o_response (contact validator_platform demo_env
      (bob_contact(''message'' \<mapsto> 0x61 # replicate 1999 0x61 @ [0xFE0F])))) = 200 \<and>
   length (o_sent (contact validator_platform demo_env
      (bob_contact(''message'' \<mapsto> 0x61 # replicate 1999 0x61 @ [0xFE0F])))) = 1 \<and>
   r_status (o_response (contact_v1 validator_platform demo_env
      (bob_contact(''message'' \<mapsto> 0x61 # replicate 1999 0x61 @ [0xFE0F])))) = 200 \<and>
   length (o_sent (contact_v1 validator_platform demo_env
      (bob_contact(''message'' \<mapsto> 0x61 # replicate 1999 0x61 @ [0xFE0F])))) = 1"
proof -
  let ?req = "bob_contact(''message'' \<mapsto> 0x61 # replicate 1999 0x61 @ [0xFE0F])"
  have f: "field ?req ''message'' = 0x61 # replicate 1999 0x61 @ [0xFE0F]"
    "field ?req ''name'' = lit ''<b>Bob</b>''" "field ?req ''email'' = lit ''bob@example.com''"
    by (simp_all add: field_def bob_contact_def)
  have n: "isLength_count (lit ''<b>Bob</b>'') = 10"
    by (simp add: count_defs lit_def)
  have e: "isEmail demo_platform (lit ''bob@example.com'')"
    by (simp add: demo_platform_def)
  have len: "length (trim (field ?req ''message'')) = 2001"
    unfolding f trim_run_selector by simp
  have a: "contact validator_platform demo_env ?req =
      \<lparr>o_response = \<lparr>r_status = 200, r_success = True, r_message = None\<rparr>,
       o_sent = [contact_message validator_platform demo_env ?req], o_console = []\<rparr>"
    unfolding contact_unfold f bob_contact_values trim_run_selector validator_platform_fields
      isLength_count_run_selector
    using e by (simp add: lit_def)
  have b: "r_status (o_response (contact_v1 validator_platform demo_env ?req)) = 200 \<and>
      o_sent (contact_v1 validator_platform demo_env ?req) =
        [contact_message_v1 validator_platform demo_env ?req]"
    unfolding contact_v1_unfold f bob_contact_values trim_run_selector validator_platform_fields
      isLength_count_run_selector n
    using e by (simp add: lit_def)
  show ?thesis using len a b by simp
qed

text \<open>
  Claim C3, amended. For every contact request whose message, after trimming, counts
  fewer than 10 or more than 2000 characters as validator.js's \<open>isLength\<close> counts them
  (code units, less one for each variation selector U+FE0E or U+FE0F and one for each
  surrogate pair), the contact route of both programs answers with its 400 invalid-data
  response, hands nothing to the transport and writes nothing to the console.
\<close>

theorem contact_rejects_message_length:
  assumes "strlen P = isLength_count"
    and "isLength_count (trim (field req ''message'')) < 10 \<or>
         2000 < isLength_count (trim (field req ''message''))"
  shows "contact P E req = \<lparr>o_response = invalid_data, o_sent = [], o_console = []\<rparr> \<and>
         contact_v1 P E req = \<lparr>o_response = invalid_data_v1, o_sent = [], o_console = []\<rparr>"
  using assms by (auto simp: contact_unfold contact_v1_unfold)

text \<open>
  A message of nine characters after trimming is rejected by both programs.
\<close>

theorem contact_rejects_message_length_witness:
  "strlen validator_platform = isLength_count \<and>
   isLength_count
     (trim (field (bob_contact(''message'' \<mapsto> lit ''  too short '')) ''message'')) < 10 \<and>
   contact validator_platform demo_env (bob_contact(''message'' \<mapsto> lit ''  too short '')) =
     \<lparr>o_response = \<lparr>r_status = 400, r_success = False, r_message = Some (lit ''Invalid data.'')\<rparr>,
      o_sent = [], o_console = []\<rparr> \<and>
   contact_v1 validator_platform demo_env (bob_contact(''message'' \<mapsto> lit ''  too short '')) =
     \<lparr>o_response = \<lparr>r_status = 400, r_success = False,
        r_message = Some (lit ''Invalid form data. Please check all fields.'')\<rparr>,
      o_sent = [], o_console = []\<rparr>"
proof -
  have p: "strlen validator_platform = isLength_count"
    by (rule validator_platform_fields)
  have h: "isLength_count
             (trim (field (bob_contact(''message'' \<mapsto> lit ''  too short '')) ''message'')) < 10"
    by (simp add: eval_defs count_defs)
  from p h contact_rejects_message_length [OF p disjI1, OF h, of demo_env]
  show ?thesis by (simp add: invalid_data_def invalid_data_v1_def)
qed

subsection \<open>Booking field bounds\<close>

text \<open>
  Claim C4 says that a first name over 50 characters, or a time that is empty after
  trimming, is rejected. The booking chains of \<open>src/server.js\<close> have no
  \<open>isLength\<close> step: a first name of 51 characters is accepted and one message is
  sent. In both programs the \<open>time\<close> chain checks \<open>notEmpty\<close> before it trims,
  so a time of three spaces is accepted as well.
\<close>

theorem booking_accepts_long_name_and_blank_time:
  "50 < strlen demo_platform
          (trim (field (bob_booking(''firstName'' \<mapsto> 0x61 # replicate 50 0x61)) ''firstName'')) \<and>
   r_status (o_response (booking demo_platform demo_env
      (bob_booking(''firstName'' \<mapsto> 0x61 # replicate 50 0x61)))) = 200 \<and>
   length (o_sent (booking demo_platform demo_env
      (bob_booking(''firstName'' \<mapsto> 0x61 # replicate 50 0x61)))) = 1 \<and>
   trim (field (bob_booking(''time'' \<mapsto> lit ''   '')) ''time'') = [] \<and>
   r_status (o_response (booking demo_platform demo_env
      (bob_booking(''time'' \<mapsto> lit ''   '')))) = 200 \<and>
   length (o_sent (booking demo_platform demo_env (bob_booking(''time'' \<mapsto> lit ''   '')))) = 1 \<and>
   r_status (o_response (booking_v1 demo_platform demo_env
      (bob_booking(''time'' \<mapsto> lit ''   '')))) = 200 \<and>
   length (o_sent (booking_v1 demo_platform demo_env (bob_booking(''time'' \<mapsto> lit ''   '')))) = 1"
proof -
  let ?long = "bob_booking(''firstName'' \<mapsto> 0x61 # replicate 50 0x61)"
  let ?blank = "bob_booking(''time'' \<mapsto> lit ''   '')"
  have f: "field ?long ''firstName'' = 0x61 # replicate 50 0x61"
    by (simp add: field_def)
  have others: "field ?long ''lastName'' = lit ''Smith''" "field ?long ''email'' = lit ''Bob@Example.com''"
    "field ?long ''date'' = lit ''2030-01-15''" "field ?long ''time'' = lit ''10:30''"
    by (simp_all add: field_def bob_booking_def)
  have long: "50 < strlen demo_platform (trim (field ?long ''firstName''))"
    unfolding f trim_run by (simp add: demo_platform_def)
  have a: "booking demo_platform demo_env ?long =
      \<lparr>o_response = \<lparr>r_status = 200, r_success = True, r_message = None\<rparr>,
       o_sent = [booking_message demo_platform demo_env ?long], o_console = []\<rparr>"
    unfolding booking_unfold f others trim_run
    by (simp add: demo_platform_def lit_def trim_def ltrim_def rtrim_def isWhiteSpace_def)
  have blank: "trim (field ?blank ''time'') = []"
    by (simp add: eval_defs)
  have b: "booking demo_platform demo_env ?blank =
      \<lparr>o_response = \<lparr>r_status = 200, r_success = True, r_message = None\<rparr>,
       o_sent = [booking_message demo_platform demo_env ?blank], o_console = []\<rparr>"
    by (simp add: booking_unfold) (simp add: demo_platform_def bob_booking_def eval_defs)
  have c: "r_status (o_response (booking_v1 demo_platform demo_env ?blank)) = 200 \<and>
      o_sent (booking_v1 demo_platform demo_env ?blank) =
        [booking_message_v1 demo_platform demo_env ?blank]"
    by (simp add: booking_v1_unfold) (simp add: demo_platform_def bob_booking_def eval_defs)
  show ?thesis using long a blank b c by simp
qed

text \<open>
  Claim C4, amended. In both programs a booking whose first name or last name is empty
  after trimming, or whose time is empty as submitted, is rejected whole: the 400
  invalid-data response, nothing handed to the transport. The booking route of
  \<open>src/unnamed/part_000\<close> (line 101) rejects in the same way a booking whose trimmed
  first name or last name counts more than 50 characters, or whose trimmed time counts
  more than 20, as validator.js's \<open>isLength\<close> counts them (code units, less one for each
  variation selector U+FE0E or U+FE0F and one for each surrogate pair);
  \<open>src/server.js\<close> has no length bound on these fields.
\<close>

theorem booking_rejects_blank_or_oversized:
  assumes "strlen P = isLength_count"
  shows "(trim (field req ''firstName'') = [] \<or> trim (field req ''lastName'') = [] \<or>
          field req ''time'' = [] \<longrightarrow>
            booking P E req = \<lparr>o_response = invalid_data, o_sent = [], o_console = []\<rparr>) \<and>
         (trim (field req ''firstName'') = [] \<or> trim (field req ''lastName'') = [] \<or>
          field req ''time'' = [] \<or>
          50 < isLength_count (trim (field req ''firstName'')) \<or>
          50 < isLength_count (trim (field req ''lastName'')) \<or>
          20 < isLength_count (trim (field req ''time'')) \<longrightarrow>
            booking_v1 P E req =
              \<lparr>o_response = invalid_data_v1, o_sent = [], o_console = []\<rparr>)"
  using assms by (auto simp: booking_unfold booking_v1_unfold)

text \<open>
  A last name of three spaces is rejected by \<open>src/server.js\<close>, and a first name of
  51 letters by the first program of \<open>src/unnamed/part_000\<close>.
\<close>

theorem booking_rejects_blank_or_oversized_witness:
  "strlen validator_platform = isLength_count \<and>
   trim (field (bob_booking(''lastName'' \<mapsto> lit ''   '')) ''lastName'') = [] \<and>
   booking validator_platform demo_env (bob_booking(''lastName'' \<mapsto> lit ''   '')) =
     \<lparr>o_response = \<lparr>r_status = 400, r_success = False, r_message = Some (lit ''Invalid data.'')\<rparr>,
      o_sent = [], o_console = []\<rparr> \<and>
   50 < isLength_count
          (trim (field (bob_booking(''firstName'' \<mapsto> 0x61 # replicate 50 0x61)) ''firstName'')) \<and>
   booking_v1 validator_platform demo_env
       (bob_booking(''firstName'' \<mapsto> 0x61 # replicate 50 0x61)) =
     \<lparr>o_response = \<lparr>r_status = 400, r_success = False,
        r_message = Some (lit ''Invalid form data. Please check all fields.'')\<rparr>,
      o_sent = [], o_console = []\<rparr>"
proof -
  let ?blank = "bob_booking(''lastName'' \<mapsto> lit ''   '')"
  let ?long = "bob_booking(''firstName'' \<mapsto> 0x61 # replicate 50 0x61)"
  have p: "strlen validator_platform = isLength_count"
    by (rule validator_platform_fields)
  have h1: "trim (field ?blank ''lastName'') = []"
    by (simp add: eval_defs)
  have "field ?long ''firstName'' = 0x61 # replicate 50 0x61"
    by (simp add: field_def)
  then have h2: "50 < isLength_count (trim (field ?long ''firstName''))"
    by (simp add: trim_run isLength_count_run)
  from p h1 h2
    booking_rejects_blank_or_oversized [OF p, of ?blank demo_env]
    booking_rejects_blank_or_oversized [OF p, of ?long demo_env]
  show ?thesis by (simp add: invalid_data_def invalid_data_v1_def)
qed

subsection \<open>The contact scenario\<close>




subsection \<open>Transport failure\<close>



subsection \<open>The sanitizer is not idempotent\<close>

text \<open>
  Claim C7. \<open>sanitize\<close> of \<open>src/server.js\<close> is not idempotent: there is a string
  \<open>x\<close> with \<open>sanitize(sanitize(x))\<close> different from \<open>sanitize(x)\<close>. The
  helper cuts at 500 code units after it has trimmed, so the cut can leave white space at
  the end, which a second pass trims: for 499 letters, a space and a letter, the first
  pass returns the letters and the space, the second the letters alone.
\<close>

theorem sanitize_not_idempotent:
  "\<exists>x. sanitize (JStr (sanitize x)) \<noteq> sanitize x"
proof -
  let ?a = "0x61 :: jschar"
  let ?p = "?a # replicate 498 ?a"
  have nws: "\<not> isWhiteSpace ?a" and ws: "isWhiteSpace (0x20 :: jschar)"
    by (simp_all add: isWhiteSpace_def)
  have clean: "chr_lt \<notin> set (?p @ [0x20, ?a])" "chr_gt \<notin> set (?p @ [0x20, ?a])"
    "chr_lt \<notin> set (?p @ [0x20])" "chr_gt \<notin> set (?p @ [0x20])"
    by (simp_all add: chr_lt_def chr_gt_def)
  have "trim (?p @ [0x20, ?a]) = ?p @ [0x20, ?a]"
    using tight_run_end [OF nws, of 498 "0x20"] by (simp add: trim_tight)
  then have first: "sanitize (JStr (?p @ [0x20, ?a])) = ?p @ [0x20]"
    using clean by (simp add: sanitize_plain)
  have "ltrim (?p @ [0x20]) = ?p @ [0x20]"
    using nws by (simp add: ltrim_def)
  moreover have "rtrim (?p @ [0x20]) = rtrim ?p"
    using ws by (rule rtrim_snoc_space)
  moreover have "rtrim ?p = ?p"
    using trim_tight [OF tight_run [OF nws, of 498]] nws by (simp add: trim_def ltrim_def)
  ultimately have "trim (?p @ [0x20]) = ?p"
    by (simp add: trim_def)
  then have second: "sanitize (JStr (?p @ [0x20])) = ?p"
    using clean by (simp add: sanitize_plain)
  have "sanitize (JStr (sanitize (JStr (?p @ [0x20, ?a])))) \<noteq> sanitize (JStr (?p @ [0x20, ?a]))"
    unfolding first second by simp
  then show ?thesis by blast
qed

subsection \<open>The sanitizers of the three programs\<close>




subsection \<open>Long contact messages are cut at 500 code units\<close>



subsection \<open>Line breaks reach the subject line\<close>

text \<open>
  Claim C10. \<open>sanitize\<close> keeps control characters inside a string: there is a contact
  request that satisfies the schema, whose name holds a line feed after the chain and
  after \<open>sanitize\<close>, and the subject of the message that is sent is the fixed prefix
  followed by exactly that sanitized name, in both programs. The same holds for the
  first name in the subject of the booking route of \<open>src/server.js\<close>.
\<close>

theorem subject_keeps_newline:
  "(\<exists>req. contact_schema demo_platform req \<and>
     chr_LF \<in> set (sanitize (JStr (escape (trim (field req ''name''))))) \<and>
     map m_subject (o_sent (contact demo_platform demo_env req)) =
       [[0x2709, 0xFE0F] @ lit '' New Message from '' @
        sanitize (JStr (escape (trim (field req ''name''))))] \<and>
     chr_LF \<in> set (sanitize_v1 (JStr (escape (trim (field req ''name''))))) \<and>
     map m_subject (o_sent (contact_v1 demo_platform demo_env req)) =
       [[0x2709, 0xFE0F] @ lit '' New Message from '' @
        sanitize_v1 (JStr (escape (trim (field req ''name''))))]) \<and>
   (\<exists>req. booking_valid demo_platform req \<and>
     chr_LF \<in> set (sanitize (JStr (escape (trim (field req ''firstName''))))) \<and>
     map m_subject (o_sent (booking demo_platform demo_env req)) =
       [[0xD83D, 0xDCC5] @ lit '' New Booking '' @ [0x2014] @ lit '' '' @
        sanitize (JStr (escape (trim (field req ''firstName'')))) @ lit '' '' @
        sanitize (JStr (escape (trim (field req ''lastName''))))])"
proof (rule conjI; intro exI conjI)
  let ?req = "bob_contact(''name'' \<mapsto> [0x61, chr_LF, 0x62])"
  let ?breq = "bob_booking(''firstName'' \<mapsto> [0x61, chr_LF, 0x62])"
  have f: "field ?req ''name'' = [0x61, chr_LF, 0x62]"
    "field ?req ''message'' = lit ''Hello there, need help''"
    "field ?req ''email'' = lit ''bob@example.com''"
    by (simp_all add: field_def bob_contact_def)
  have g: "field ?breq ''firstName'' = [0x61, chr_LF, 0x62]"
    by (simp add: field_def)
  have tv: "trim [0x61, chr_LF, 0x62] = [0x61, chr_LF, 0x62]"
    by (simp add: eval_defs)
  have v: "escape [0x61, chr_LF, 0x62] = [0x61, chr_LF, 0x62]"
    by (simp add: eval_defs)
  have s: "sanitize (JStr [0x61, chr_LF, 0x62]) = [0x61, chr_LF, 0x62]"
    "sanitize_v1 (JStr [0x61, chr_LF, 0x62]) = [0x61, chr_LF, 0x62]"
    by (simp_all add: sanitize_def sanitize_v1_def eval_defs)
  have ok: "sendMail demo_platform m = Inr ()" for m
    by (simp add: demo_platform_def)
  show h: "contact_schema demo_platform ?req"
    unfolding contact_schema_def f bob_contact_values tv
    by (simp add: demo_platform_def lit_def)
  have a: "o_sent (contact demo_platform demo_env ?req) = [contact_message demo_platform demo_env ?req]"
    unfolding contact_schema_accepts [OF h] ok by simp
  have b: "o_sent (contact_v1 demo_platform demo_env ?req) =
      [contact_message_v1 demo_platform demo_env ?req]"
    using h ok by (rule contact_v1_schema_accepts)
  show "chr_LF \<in> set (sanitize (JStr (escape (trim (field ?req ''name'')))))"
    unfolding f tv v s by simp
  show "chr_LF \<in> set (sanitize_v1 (JStr (escape (trim (field ?req ''name'')))))"
    unfolding f tv v s by simp
  show "map m_subject (o_sent (contact demo_platform demo_env ?req)) =
       [[0x2709, 0xFE0F] @ lit '' New Message from '' @
        sanitize (JStr (escape (trim (field ?req ''name''))))]"
    unfolding a list.map contact_message_subject ..
  show "map m_subject (o_sent (contact_v1 demo_platform demo_env ?req)) =
       [[0x2709, 0xFE0F] @ lit '' New Message from '' @
        sanitize_v1 (JStr (escape (trim (field ?req ''name''))))]"
    unfolding b list.map contact_message_v1_subject ..
  show k: "booking_valid demo_platform ?breq"
    unfolding booking_valid_def g tv
    by (simp add: demo_platform_def bob_booking_def eval_defs)
  show "chr_LF \<in> set (sanitize (JStr (escape (trim (field ?breq ''firstName'')))))"
    unfolding g tv v s by simp
  show "map m_subject (o_sent (booking demo_platform demo_env ?breq)) =
       [[0xD83D, 0xDCC5] @ lit '' New Booking '' @ [0x2014] @ lit '' '' @
        sanitize (JStr (escape (trim (field ?breq ''firstName'')))) @ lit '' '' @
        sanitize (JStr (escape (trim (field ?breq ''lastName''))))]"
    unfolding booking_valid_accepts [OF k ok] list.map booking_message_subject ..
qed

end
